theory Spec2Isabelle
  imports Main
begin

section \<open>Severity constants of \<^verbatim>\<open>Logging.h\<close>\<close>

text \<open>
  The header defines the levels as preprocessor constants of type \<^verbatim>\<open>int\<close>:
  \<^verbatim>\<open>
  #define TRACE 0
  #define DEBUG 0
  #define INFO  1
  #define WARN  2
  #define ERROR 3
  #define FATAL 4
  \<close>
  Levels are only compared, never added or multiplied, so the machine \<^verbatim>\<open>int\<close> is
  modelled by \<^typ>\<open>int\<close>: no operation of this header can overflow.
\<close>

definition TRACE :: int where "TRACE = 0"
definition DEBUG :: int where "DEBUG = 0"
definition INFO :: int where "INFO = 1"
definition WARN :: int where "WARN = 2"
definition ERROR :: int where "ERROR = 3"
definition FATAL :: int where "FATAL = 4"

text \<open>The six names in the order of their definition.\<close>

definition severity_names :: "(string \<times> int) list" where
  "severity_names =
     [(''TRACE'', TRACE), (''DEBUG'', DEBUG), (''INFO'', INFO),
      (''WARN'', WARN), (''ERROR'', ERROR), (''FATAL'', FATAL)]"

section \<open>The host process\<close>

text \<open>
  \<^verbatim>\<open>std::string::c_str()\<close> hands a NUL-terminated buffer to a function taking
  \<^verbatim>\<open>const char*\<close>; such a function sees the characters before the first NUL.
\<close>

definition c_str :: "string \<Rightarrow> string" where
  "c_str s = takeWhile (\<lambda>c. c \<noteq> CHR 0x00) s"

text \<open>
  The header only declares the two functions of namespace \<^verbatim>\<open>agora\<close>:
  \<^verbatim>\<open>
  void writeDLog(const char* logger, int level, const char* msg);
  int getLogLevel (const char* logger);
  \<close>
  Both live in the host process. The host is a record: \<open>getLogLevel\<close> is the level
  store, a total function from logger names to levels that the host may replace at any
  time; \<open>written\<close> lists the calls of \<^verbatim>\<open>writeDLog\<close> received so far, oldest first;
  \<open>decisions\<close> counts the emit decisions that accumulators have taken.
\<close>

record host =
  getLogLevel :: "string \<Rightarrow> int"
  written :: "(string \<times> int \<times> string) list"
  decisions :: nat

text \<open>
  Modelled from the spec: the body of \<^verbatim>\<open>agora::writeDLog\<close> is missing; the spec's
  sink operation "accept a leveled message for a partition" is taken to record the call.
\<close>

definition writeDLog :: "string \<Rightarrow> int \<Rightarrow> string \<Rightarrow> host \<Rightarrow> host" where
  "writeDLog logger level msg h = h\<lparr>written := written h @ [(logger, level, msg)]\<rparr>"

section \<open>Class \<^verbatim>\<open>Logging\<close>\<close>

text \<open>
  \<^verbatim>\<open>
  static bool logDebug(std::string const& partition)
  {
      return agora::getLogLevel(partition.c_str()) <= DEBUG;
  }
  static bool logTrace(std::string const& partition)
  {
      return agora::getLogLevel(partition.c_str()) <= TRACE;
  }
  \<close>
  The parameter \<^verbatim>\<open>partition\<close> is written \<open>p\<close>.
\<close>

definition logDebug :: "host \<Rightarrow> string \<Rightarrow> bool" where
  "logDebug h p = (getLogLevel h (c_str p) \<le> DEBUG)"

definition logTrace :: "host \<Rightarrow> string \<Rightarrow> bool" where
  "logTrace h p = (getLogLevel h (c_str p) \<le> TRACE)"

subsection \<open>The level gate of the specification\<close>

text \<open>
  Modelled from the spec: the header has no general gate function. The spec's
  \<open>currentMinimumLevel(partition)\<close> is "supplied by the external store", which is
  \<^verbatim>\<open>agora::getLogLevel\<close>, reached with the partition's C string; and
  \<open>isEnabled(partition, severity)\<close> "returns true iff
  severity >= currentMinimumLevel(partition)".
\<close>

definition currentMinimumLevel :: "host \<Rightarrow> string \<Rightarrow> int" where
  "currentMinimumLevel h p = getLogLevel h (c_str p)"

definition isEnabled :: "host \<Rightarrow> string \<Rightarrow> int \<Rightarrow> bool" where
  "isEnabled h p severity = (severity \<ge> currentMinimumLevel h p)"

section \<open>The output stream\<close>

text \<open>
  The accumulator writes into a \<^verbatim>\<open>std::ostringstream\<close>. The class is the standard
  library's and not part of this repository; its state and its inserters are modelled
  here from the C++ standard, as far as the accumulator can observe them: the characters
  written so far (\<^verbatim>\<open>str()\<close>), the number base of the format flags, the pending
  field width, the fill character, the adjustment (left or right), and whether the stream
  has failed (\<^verbatim>\<open>!good()\<close>). The remaining format flags keep their default values.
\<close>

datatype basefield = Dec | Hex | Oct

record ostringstream =
  str :: string
  basefield :: basefield
  width :: nat
  fill :: char
  adjust_left :: bool
  fail :: bool

text \<open>A default-constructed stream.\<close>

definition ostringstream_default :: ostringstream where
  "ostringstream_default =
     \<lparr>str = [], basefield = Dec, width = 0, fill = CHR '' '', adjust_left = False,
      fail = False\<rparr>"

text \<open>The digits of a natural number in radix \<open>r\<close>, most significant first.\<close>

definition digit_char :: "nat \<Rightarrow> char" where
  "digit_char d = ''0123456789abcdef'' ! d"

function digits :: "nat \<Rightarrow> nat \<Rightarrow> string" where
  "digits r n =
     (if r < 2 then []
      else if n < r then [digit_char n]
      else digits r (n div r) @ [digit_char (n mod r)])"
  by pat_completeness auto
termination
  by (relation "measure snd") auto

declare digits.simps [simp del]

definition radix :: "basefield \<Rightarrow> nat" where
  "radix b = (case b of Dec \<Rightarrow> 10 | Hex \<Rightarrow> 16 | Oct \<Rightarrow> 8)"

text \<open>
  The text of an \<^verbatim>\<open>int\<close>: signed in base ten; in base sixteen and eight the 32-bit
  two's complement pattern is written as an unsigned number.
\<close>

definition num_text :: "basefield \<Rightarrow> int \<Rightarrow> string" where
  "num_text b n =
     (case b of
        Dec \<Rightarrow> (if n < 0 then CHR ''-'' # digits 10 (nat (- n)) else digits 10 (nat n))
      | _ \<Rightarrow> digits (radix b) (nat (n mod 2 ^ 32)))"

text \<open>
  A formatted inserter pads its text with the fill character up to the pending width,
  after the text when the adjustment is left and before it otherwise. A text at least
  as long as the width is written as it is (the subtraction on \<^typ>\<open>nat\<close> stops at 0).
\<close>

definition pad :: "ostringstream \<Rightarrow> string \<Rightarrow> string" where
  "pad s t =
     (if adjust_left s then t @ replicate (width s - length t) (fill s)
      else replicate (width s - length t) (fill s) @ t)"

text \<open>
  A formatted inserter writes nothing into a failed stream; into a good stream it writes
  the padded text and resets the width to 0.
\<close>

definition put :: "string \<Rightarrow> ostringstream \<Rightarrow> ostringstream" where
  "put t s = (if fail s then s else s\<lparr>str := str s @ pad s t, width := 0\<rparr>)"

text \<open>
  Fragments of the standard library's own types: text (\<^verbatim>\<open>const char*\<close>,
  \<^verbatim>\<open>std::string\<close>), an \<^verbatim>\<open>int\<close>, the manipulators \<^verbatim>\<open>std::dec\<close>,
  \<^verbatim>\<open>std::hex\<close>, \<^verbatim>\<open>std::oct\<close>, \<^verbatim>\<open>std::setw(n)\<close>, \<^verbatim>\<open>std::setfill(c)\<close>,
  \<^verbatim>\<open>std::left\<close> and \<^verbatim>\<open>std::right\<close>, and a null \<^verbatim>\<open>std::streambuf*\<close>,
  whose insertion sets the stream's bad bit. Manipulators change the flags of a failed
  stream too; they write no character.
\<close>

datatype fragment =
    Str string
  | Num int
  | Base basefield
  | Setw nat
  | Setfill char
  | Adjust bool
  | NullBuf

fun stream_insert :: "fragment \<Rightarrow> ostringstream \<Rightarrow> ostringstream" where
  "stream_insert (Str t) s = put t s"
| "stream_insert (Num n) s = put (num_text (basefield s) n) s"
| "stream_insert (Base b) s = s\<lparr>basefield := b\<rparr>"
| "stream_insert (Setw n) s = s\<lparr>width := n\<rparr>"
| "stream_insert (Setfill c) s = s\<lparr>fill := c\<rparr>"
| "stream_insert (Adjust l) s = s\<lparr>adjust_left := l\<rparr>"
| "stream_insert NullBuf s = (if fail s then s else s\<lparr>fail := True\<rparr>)"

text \<open>
  A chain \<^verbatim>\<open>os << f1 << ... << fn\<close> on the stream itself, for any inserter \<open>ins\<close>.
\<close>

primrec insert_all ::
  "('a \<Rightarrow> ostringstream \<Rightarrow> ostringstream) \<Rightarrow> 'a list \<Rightarrow> ostringstream \<Rightarrow> ostringstream" where
  "insert_all ins [] s = s"
| "insert_all ins (v # vs) s = insert_all ins vs (ins v s)"

text \<open>
  The value fragments are those that stand for a text of their own, and \<open>rendering s\<close>
  is the text of a fragment under the flags of the stream \<open>s\<close>, before padding.
\<close>

fun is_value :: "fragment \<Rightarrow> bool" where
  "is_value (Str t) = True"
| "is_value (Num n) = True"
| "is_value f = False"

fun rendering :: "ostringstream \<Rightarrow> fragment \<Rightarrow> string" where
  "rendering s (Str t) = t"
| "rendering s (Num n) = num_text (basefield s) n"
| "rendering s f = []"

section \<open>Struct \<^verbatim>\<open>DLogger\<close>\<close>

text \<open>
  \<^verbatim>\<open>
  std::string mLoggerName;
  int mLevel;
  std::ostringstream mOutStream;
  \<close>
\<close>

record DLogger =
  mLoggerName :: string
  mLevel :: int
  mOutStream :: ostringstream

text \<open>
  \<^verbatim>\<open>
  template <class T>
  DLogger &operator<<(const T &value)
  {
      mOutStream << value;
      return *this;
  }
  \<close>
  The template accepts every type \<^verbatim>\<open>T\<close> that has an inserter; that inserter is the
  parameter \<open>ins\<close>, a function of the value and the stream's state (\<open>stream_insert\<close>
  for the fragments above). The operator runs in the whole program state, the host and
  the accumulator it is called on, and returns that state with the accumulator updated
  in place (\<^verbatim>\<open>return *this\<close>).
\<close>

definition operator_lshift ::
  "('a \<Rightarrow> ostringstream \<Rightarrow> ostringstream) \<Rightarrow> 'a \<Rightarrow> host \<times> DLogger \<Rightarrow> host \<times> DLogger" where
  "operator_lshift ins v =
     (\<lambda>(h, this). (h, this\<lparr>mOutStream := ins v (mOutStream this)\<rparr>))"

text \<open>
  A chain \<^verbatim>\<open>logger << f1 << ... << fn\<close> applies the operator to the fragments from
  left to right.
\<close>

primrec append_all ::
  "('a \<Rightarrow> ostringstream \<Rightarrow> ostringstream) \<Rightarrow> 'a list \<Rightarrow> host \<times> DLogger \<Rightarrow> host \<times> DLogger" where
  "append_all ins [] s = s"
| "append_all ins (v # vs) s = append_all ins vs (operator_lshift ins v s)"

text \<open>
  Modelled from the spec: the constructor \<^verbatim>\<open>DLogger(int level, std::string const&
  loggerName)\<close> is declared in the header and defined elsewhere. The spec: "Construct an
  accumulator with (severity, partition)"; the pending message owns the severity, the
  partition and an initially empty sequence of fragments.
\<close>

definition DLogger_ctor :: "int \<Rightarrow> string \<Rightarrow> host \<Rightarrow> host \<times> DLogger" where
  "DLogger_ctor level loggerName h =
     (h, \<lparr>mLoggerName = loggerName, mLevel = level, mOutStream = ostringstream_default\<rparr>)"

text \<open>
  Modelled from the spec: the destructor \<^verbatim>\<open>~DLogger()\<close> is declared in the header
  and defined elsewhere. The spec's Finalizing state: "the accumulator evaluates
  LevelGate.isEnabled(partition, severity) at this moment ... If enabled, the
  concatenated text, severity, and partition are handed to the external sink's accept a
  leveled message operation; if disabled, the accumulated text is discarded without
  being sent." The text is the content of the stream.
\<close>

definition DLogger_dtor :: "host \<times> DLogger \<Rightarrow> host" where
  "DLogger_dtor =
     (\<lambda>(h, this).
        let h' = h\<lparr>decisions := Suc (decisions h)\<rparr>
        in if isEnabled h (mLoggerName this) (mLevel this)
           then writeDLog (mLoggerName this) (mLevel this) (str (mOutStream this)) h'
           else h')"

text \<open>
  One log statement \<^verbatim>\<open>CLOG(LEVEL, MOD) << f1 << ... << fn;\<close>: the macro constructs
  the temporary, the chain fills it, and the end of the statement destroys it.
\<close>

definition log_statement ::
  "('a \<Rightarrow> ostringstream \<Rightarrow> ostringstream) \<Rightarrow> int \<Rightarrow> string \<Rightarrow> 'a list \<Rightarrow> host \<Rightarrow> host" where
  "log_statement ins level loggerName vs h =
     DLogger_dtor (append_all ins vs (DLogger_ctor level loggerName h))"

text \<open>
  The same statement when the host replaces its level store by \<open>g\<close> after the
  accumulator was constructed and filled, before the statement ends.
\<close>

definition log_statement_reconfigured ::
  "('a \<Rightarrow> ostringstream \<Rightarrow> ostringstream) \<Rightarrow> int \<Rightarrow> string \<Rightarrow> 'a list \<Rightarrow>
     (string \<Rightarrow> int) \<Rightarrow> host \<Rightarrow> host" where
  "log_statement_reconfigured ins level loggerName vs g h =
     (case append_all ins vs (DLogger_ctor level loggerName h) of
        (h1, this) \<Rightarrow> DLogger_dtor (h1\<lparr>getLogLevel := g\<rparr>, this))"

text \<open>A host for the examples: partition \<open>net\<close> is configured at \<open>WARN\<close>, all others at \<open>TRACE\<close>.\<close>

definition net_at_warn :: host where
  "net_at_warn =
     \<lparr>getLogLevel = (\<lambda>p. if p = ''net'' then WARN else TRACE), written = [], decisions = 0\<rparr>"

text \<open>
  A second host that agrees with the first on partition \<open>net\<close> only: another partition
  is configured differently, the sink has received a message and a decision was counted.
\<close>

definition net_at_warn_db_fatal :: host where
  "net_at_warn_db_fatal =
     \<lparr>getLogLevel = (\<lambda>p. if p = ''net'' then WARN else if p = ''db'' then FATAL else TRACE),
      written = [(''db'', FATAL, ''disk full'')], decisions = 1\<rparr>"

text \<open>
  Accumulators for the examples: a new one, one whose stream has a field width of 5
  pending (after \<^verbatim>\<open><< std::setw(5)\<close>), and one whose stream writes numbers in base
  sixteen (after \<^verbatim>\<open><< std::hex\<close>).
\<close>

definition net_error_logger :: DLogger where
  "net_error_logger =
     \<lparr>mLoggerName = ''net'', mLevel = ERROR, mOutStream = ostringstream_default\<rparr>"

definition net_error_logger_setw5 :: DLogger where
  "net_error_logger_setw5 =
     \<lparr>mLoggerName = ''net'', mLevel = ERROR, mOutStream = ostringstream_default\<lparr>width := 5\<rparr>\<rparr>"

definition net_error_logger_hex :: DLogger where
  "net_error_logger_hex =
     \<lparr>mLoggerName = ''net'', mLevel = ERROR,
      mOutStream = ostringstream_default\<lparr>basefield := Hex\<rparr>\<rparr>"

section \<open>Helper facts\<close>

lemma c_str_no_nul: "CHR 0x00 \<notin> set s \<Longrightarrow> c_str s = s"
  by (auto simp add: c_str_def)

lemma num_text_dec_42: "num_text Dec 42 = ''42''"
  by code_simp

lemma num_text_hex_255: "num_text Hex 255 = ''ff''"
  by code_simp

lemma num_text_dec_255: "num_text Dec 255 = ''255''"
  by code_simp

lemma stream_insert_value:
  "width s = 0 \<Longrightarrow> is_value v \<Longrightarrow>
     stream_insert v s = (if fail s then s else s\<lparr>str := str s @ rendering s v\<rparr>)"
  by (cases v) (simp_all add: put_def pad_def)

lemma rendering_str_update: "rendering (s\<lparr>str := t\<rparr>) = rendering s"
proof
  fix f
  show "rendering (s\<lparr>str := t\<rparr>) f = rendering s f"
    by (cases f) simp_all
qed

lemma insert_all_values:
  "\<not> fail s \<Longrightarrow> width s = 0 \<Longrightarrow> list_all is_value vs \<Longrightarrow>
     insert_all stream_insert vs s = s\<lparr>str := str s @ concat (map (rendering s) vs)\<rparr>"
proof (induction vs arbitrary: s)
  case Nil
  then show ?case by simp
next
  case (Cons v vs)
  let ?s = "s\<lparr>str := str s @ rendering s v\<rparr>"
  have step: "stream_insert v s = ?s"
    using Cons.prems by (simp add: stream_insert_value)
  have "insert_all stream_insert vs ?s = ?s\<lparr>str := str ?s @ concat (map (rendering ?s) vs)\<rparr>"
    using Cons.prems by (intro Cons.IH) simp_all
  with step show ?case
    by (simp add: rendering_str_update)
qed

lemma insert_all_append:
  "insert_all ins (xs @ ys) s = insert_all ins ys (insert_all ins xs s)"
  by (induction xs arbitrary: s) simp_all

lemma append_all_host: "fst (append_all ins vs s) = fst s"
  by (induction vs arbitrary: s) (simp_all add: operator_lshift_def split_beta)

lemma append_all_name: "mLoggerName (snd (append_all ins vs s)) = mLoggerName (snd s)"
  by (induction vs arbitrary: s) (simp_all add: operator_lshift_def split_beta)

lemma append_all_level: "mLevel (snd (append_all ins vs s)) = mLevel (snd s)"
  by (induction vs arbitrary: s) (simp_all add: operator_lshift_def split_beta)

lemma append_all_stream:
  "mOutStream (snd (append_all ins vs s)) = insert_all ins vs (mOutStream (snd s))"
  by (induction vs arbitrary: s) (simp_all add: operator_lshift_def split_beta)

lemma append_all_append:
  "append_all ins (xs @ ys) s = append_all ins ys (append_all ins xs s)"
  by (induction xs arbitrary: s) simp_all

lemma append_all_ctor:
  "append_all ins vs (DLogger_ctor level name h) =
     (h, \<lparr>mLoggerName = name, mLevel = level,
          mOutStream = insert_all ins vs ostringstream_default\<rparr>)"
proof -
  let ?s = "append_all ins vs (DLogger_ctor level name h)"
  have "fst ?s = h"
    by (simp add: append_all_host DLogger_ctor_def)
  moreover have "mLoggerName (snd ?s) = name" "mLevel (snd ?s) = level"
    "mOutStream (snd ?s) = insert_all ins vs ostringstream_default"
    by (simp_all add: append_all_name append_all_level append_all_stream DLogger_ctor_def)
  ultimately show ?thesis
    by (cases ?s) simp
qed

lemma written_log_statement:
  "written (log_statement ins level name vs h) =
     written h @ (if getLogLevel h (c_str name) \<le> level
                  then [(name, level, str (insert_all ins vs ostringstream_default))] else [])"
  by (simp add: log_statement_def append_all_ctor DLogger_dtor_def isEnabled_def
      currentMinimumLevel_def writeDLog_def Let_def)

lemma decisions_log_statement:
  "decisions (log_statement ins level name vs h) = Suc (decisions h)"
  by (simp add: log_statement_def append_all_ctor DLogger_dtor_def writeDLog_def Let_def)

lemma default_stream_values:
  "list_all is_value fs \<Longrightarrow>
     str (insert_all stream_insert fs ostringstream_default) =
       concat (map (rendering ostringstream_default) fs)"
proof -
  assume all_values: "list_all is_value fs"
  have "\<not> fail ostringstream_default" "width ostringstream_default = 0"
    "str ostringstream_default = []"
    by (simp_all add: ostringstream_default_def)
  with all_values show ?thesis
    by (simp add: insert_all_values)
qed

section \<open>The severity constants\<close>

text \<open>
  C2, as the specification states it: the levels are TRACE=0, DEBUG=1, INFO=2, WARN=3,
  ERROR=4, FATAL=5 and no two names share a value. The header's constants differ: the
  listed values do not hold, and the values of the six names are not distinct.
\<close>

theorem severity_values_counterexample:
  "\<not> (TRACE = 0 \<and> DEBUG = 1 \<and> INFO = 2 \<and> WARN = 3 \<and> ERROR = 4 \<and> FATAL = 5) \<and>
   \<not> distinct (map snd severity_names)"
  by (simp add: severity_names_def TRACE_def DEBUG_def INFO_def WARN_def ERROR_def FATAL_def)

text \<open>
  C2, amended: the six names TRACE, DEBUG, INFO, WARN, ERROR, FATAL have the values
  0, 0, 1, 2, 3, 4. The names are six and pairwise different, their values are in
  non-decreasing order, DEBUG is an alias of TRACE, the five levels from DEBUG to FATAL
  are strictly increasing, and there are five distinct values.
\<close>

theorem severity_values:
  "map snd severity_names = [0, 0, 1, 2, 3, 4] \<and>
   TRACE = 0 \<and> DEBUG = 0 \<and> INFO = 1 \<and> WARN = 2 \<and> ERROR = 3 \<and> FATAL = 4 \<and>
   length severity_names = 6 \<and> distinct (map fst severity_names) \<and>
   sorted (map snd severity_names) \<and>
   TRACE = DEBUG \<and> DEBUG < INFO \<and> INFO < WARN \<and> WARN < ERROR \<and> ERROR < FATAL \<and>
   card (set (map snd severity_names)) = 5"
  by (simp add: severity_names_def TRACE_def DEBUG_def INFO_def WARN_def ERROR_def FATAL_def)

section \<open>The pre-check predicates\<close>

text \<open>
  C3: for every partition string \<open>p\<close>, \<open>logDebug\<close> holds iff the current minimum level
  of \<open>p\<close> is at most DEBUG, and \<open>logTrace\<close> iff it is at most TRACE; they are the
  gate predicate \<open>isEnabled\<close> at DEBUG and at TRACE. Both read nothing but the level
  store: the sink's contents and the decision count do not matter, and after the store is
  replaced the answer is that of the new store (nothing is cached).
\<close>

theorem logDebug_logTrace_gate:
  "logDebug h p = (currentMinimumLevel h p \<le> DEBUG) \<and>
   logTrace h p = (currentMinimumLevel h p \<le> TRACE) \<and>
   logDebug h p = isEnabled h p DEBUG \<and>
   logTrace h p = isEnabled h p TRACE \<and>
   logDebug (h\<lparr>written := w, decisions := n\<rparr>) p = logDebug h p \<and>
   logTrace (h\<lparr>written := w, decisions := n\<rparr>) p = logTrace h p \<and>
   logDebug (h\<lparr>getLogLevel := g\<rparr>) p = (g (c_str p) \<le> DEBUG) \<and>
   logTrace (h\<lparr>getLogLevel := g\<rparr>) p = (g (c_str p) \<le> TRACE)"
  by (simp add: logDebug_def logTrace_def isEnabled_def currentMinimumLevel_def)

text \<open>
  C8: for every partition string and every state of the level store, \<open>logDebug\<close> and
  \<open>logTrace\<close> return the same boolean, because DEBUG and TRACE are both 0.
\<close>

theorem logDebug_eq_logTrace:
  "logDebug h p = logTrace h p \<and> logDebug = logTrace"
  by (simp add: fun_eq_iff logDebug_def logTrace_def DEBUG_def TRACE_def)

text \<open>
  C10: two calls with the same partition string, in two hosts whose level stores give that
  partition the same level, return the same boolean, for \<open>logDebug\<close> and for
  \<open>logTrace\<close>: the levels of other partitions, the sink and the decision count of the
  two hosts may differ.
\<close>

theorem logDebug_logTrace_two_runs:
  "p1 = p2 \<Longrightarrow> currentMinimumLevel h1 p1 = currentMinimumLevel h2 p2 \<Longrightarrow>
     logDebug h1 p1 = logDebug h2 p2 \<and> logTrace h1 p1 = logTrace h2 p2"
  by (simp add: logDebug_def logTrace_def currentMinimumLevel_def)

theorem logDebug_logTrace_two_runs_witness:
  "''net'' = ''net'' \<and>
   currentMinimumLevel net_at_warn ''net'' = currentMinimumLevel net_at_warn_db_fatal ''net'' \<and>
   getLogLevel net_at_warn ''db'' \<noteq> getLogLevel net_at_warn_db_fatal ''db'' \<and>
   written net_at_warn \<noteq> written net_at_warn_db_fatal \<and>
   logDebug net_at_warn ''net'' = logDebug net_at_warn_db_fatal ''net'' \<and>
   logTrace net_at_warn ''net'' = logTrace net_at_warn_db_fatal ''net'' \<and>
   \<not> logDebug net_at_warn ''net''"
  using logDebug_logTrace_two_runs [of "''net''" "''net''" net_at_warn net_at_warn_db_fatal]
  by (simp add: net_at_warn_def net_at_warn_db_fatal_def currentMinimumLevel_def c_str_def
      logDebug_def TRACE_def DEBUG_def WARN_def FATAL_def)

section \<open>Appending fragments\<close>

text \<open>
  C4, as the specification states it: for every accumulator and every sequence of
  fragments the finalized text is the concatenation of the fragments' texts, none
  dropped. A new accumulator that receives \<open>a\<close>, a null stream buffer and \<open>b\<close> holds
  \<open>a\<close> only: the stream has failed and drops \<open>b\<close>. After \<^verbatim>\<open>std::hex\<close> the number
  255 is written as \<open>ff\<close>.
\<close>

theorem append_all_concat_counterexample:
  "str (mOutStream (snd (append_all stream_insert [Str ''a'', NullBuf, Str ''b'']
      (net_at_warn, net_error_logger)))) = ''a'' \<and>
   concat (map (rendering (mOutStream net_error_logger)) [Str ''a'', NullBuf, Str ''b'']) =
     ''ab'' \<and>
   str (mOutStream (snd (append_all stream_insert [Base Hex, Num 255]
      (net_at_warn, net_error_logger)))) = ''ff'' \<and>
   concat (map (rendering (mOutStream net_error_logger)) [Base Hex, Num 255]) = ''255''"
  by (simp add: operator_lshift_def net_error_logger_def ostringstream_default_def
      put_def pad_def num_text_hex_255 num_text_dec_255)

text \<open>
  C4, amended: for every accumulator and every sequence of fragments (the empty one
  too), the accumulator hands each fragment to its output stream once, in append order,
  and writes nothing itself: its stream after the chain is the stream before with the
  fragments inserted one after the other. When that stream is good and has no field width
  pending and every fragment is a value (a text or a number, no manipulator and no stream
  buffer), the finalized text is the text before followed by the concatenation of the
  fragments' texts in append order.
\<close>

theorem append_all_concat:
  "mOutStream (snd (append_all ins vs (h, this))) = insert_all ins vs (mOutStream this) \<and>
   (\<not> fail (mOutStream this) \<and> width (mOutStream this) = 0 \<and> list_all is_value fs \<longrightarrow>
      str (mOutStream (snd (append_all stream_insert fs (h, this)))) =
        str (mOutStream this) @ concat (map (rendering (mOutStream this)) fs))"
  by (simp add: append_all_stream insert_all_values)

theorem append_all_concat_witness:
  "\<not> fail (mOutStream net_error_logger) \<and> width (mOutStream net_error_logger) = 0 \<and>
   list_all is_value [Str ''conn '', Num 42, Str '' closed''] \<and>
   str (mOutStream (snd (append_all stream_insert [Str ''conn '', Num 42, Str '' closed'']
      (net_at_warn, net_error_logger)))) = ''conn 42 closed''"
proof -
  have good: "\<not> fail (mOutStream net_error_logger)" "width (mOutStream net_error_logger) = 0"
    by (simp_all add: net_error_logger_def ostringstream_default_def)
  have vals: "list_all is_value [Str ''conn '', Num 42, Str '' closed'']"
    by simp
  have start: "str (mOutStream net_error_logger) = []"
    "basefield (mOutStream net_error_logger) = Dec"
    by (simp_all add: net_error_logger_def ostringstream_default_def)
  from append_all_concat [where this = net_error_logger and h = net_at_warn
      and fs = "[Str ''conn '', Num 42, Str '' closed'']" and ins = stream_insert
      and vs = "[]"] good vals
  have "str (mOutStream (snd (append_all stream_insert [Str ''conn '', Num 42, Str '' closed'']
      (net_at_warn, net_error_logger)))) = ''conn 42 closed''"
    by (simp add: start num_text_dec_42)
  with good vals show ?thesis
    by simp
qed

text \<open>
  C7: an append changes the output stream only. It leaves the host as it was (no gate
  query is counted, no message reaches the sink), it leaves the stored name and level
  as they were, and its result is the accumulator it was called on with the fragment
  inserted into its stream, whatever the host. The same holds for a chain of any number
  of appends, and an empty chain changes nothing.
\<close>

theorem operator_lshift_frame:
  "fst (operator_lshift ins v (h, this)) = h \<and>
   snd (operator_lshift ins v (h, this)) = this\<lparr>mOutStream := ins v (mOutStream this)\<rparr> \<and>
   snd (operator_lshift ins v (h', this)) = snd (operator_lshift ins v (h, this)) \<and>
   mLoggerName (snd (operator_lshift ins v (h, this))) = mLoggerName this \<and>
   mLevel (snd (operator_lshift ins v (h, this))) = mLevel this \<and>
   fst (append_all ins vs (h, this)) = h \<and>
   mLoggerName (snd (append_all ins vs (h, this))) = mLoggerName this \<and>
   mLevel (snd (append_all ins vs (h, this))) = mLevel this \<and>
   append_all ins [] (h, this) = (h, this)"
  by (simp add: operator_lshift_def append_all_host append_all_name append_all_level)

text \<open>
  C9, as the specification states it: in every accumulator state, appending \<open>a\<close> and
  then \<open>b\<close> gives the text that appending the one fragment with their joined texts
  gives. With a field width of 5 pending, \<open>a\<close> then \<open>b\<close> is padded with four blanks
  and the one fragment \<open>ab\<close> with three.
\<close>

theorem operator_lshift_homomorphism_counterexample:
  "str (mOutStream (snd (operator_lshift stream_insert (Str ''b'')
      (operator_lshift stream_insert (Str ''a'') (net_at_warn, net_error_logger_setw5))))) =
     ''    ab'' \<and>
   str (mOutStream (snd (operator_lshift stream_insert
      (Str (rendering (mOutStream net_error_logger_setw5) (Str ''a'') @
            rendering (mOutStream net_error_logger_setw5) (Str ''b'')))
      (net_at_warn, net_error_logger_setw5)))) = ''   ab''"
  by (simp add: operator_lshift_def net_error_logger_setw5_def ostringstream_default_def
      put_def pad_def eval_nat_numeral)

text \<open>
  C9, amended: appending no fragment is the identity, and a chain over two sequences
  one after the other is the chain over the first followed by the chain over the second.
  In every accumulator state with no field width pending, appending a value \<open>a\<close> and
  then a value \<open>b\<close> (texts or numbers) gives the same state as appending the one text
  fragment made of the text of \<open>a\<close> followed by the text of \<open>b\<close>, both taken under the
  stream's current flags.
\<close>

theorem operator_lshift_homomorphism:
  "append_all ins [] s = s \<and>
   append_all ins (xs @ ys) s = append_all ins ys (append_all ins xs s) \<and>
   (width (mOutStream this) = 0 \<and> is_value a \<and> is_value b \<longrightarrow>
      operator_lshift stream_insert b (operator_lshift stream_insert a (h, this)) =
      operator_lshift stream_insert
        (Str (rendering (mOutStream this) a @ rendering (mOutStream this) b)) (h, this))"
proof -
  have two: "operator_lshift stream_insert b (operator_lshift stream_insert a (h, this)) =
      operator_lshift stream_insert
        (Str (rendering (mOutStream this) a @ rendering (mOutStream this) b)) (h, this)"
    if w: "width (mOutStream this) = 0" and a: "is_value a" and b: "is_value b"
  proof (cases "fail (mOutStream this)")
    case True
    with w a b show ?thesis
      by (simp add: operator_lshift_def stream_insert_value put_def)
  next
    case False
    let ?s = "mOutStream this"
    have first: "stream_insert a ?s = ?s\<lparr>str := str ?s @ rendering ?s a\<rparr>"
      using w a False by (simp add: stream_insert_value)
    have second: "stream_insert b (?s\<lparr>str := str ?s @ rendering ?s a\<rparr>) =
        ?s\<lparr>str := str ?s @ rendering ?s a @ rendering ?s b\<rparr>"
      using w b False by (simp add: stream_insert_value rendering_str_update)
    have joined: "stream_insert (Str (rendering ?s a @ rendering ?s b)) ?s =
        ?s\<lparr>str := str ?s @ rendering ?s a @ rendering ?s b\<rparr>"
      using w False by (simp add: put_def pad_def)
    from first second joined show ?thesis
      by (simp add: operator_lshift_def)
  qed
  have chain: "append_all ins (xs @ ys) s = append_all ins ys (append_all ins xs s)"
    by (rule append_all_append)
  from two chain show ?thesis
    by simp
qed

theorem operator_lshift_homomorphism_witness:
  "width (mOutStream net_error_logger_hex) = 0 \<and> is_value (Num 255) \<and> is_value (Str ''x'') \<and>
   operator_lshift stream_insert (Str ''x'')
     (operator_lshift stream_insert (Num 255) (net_at_warn, net_error_logger_hex)) =
   operator_lshift stream_insert (Str ''ffx'') (net_at_warn, net_error_logger_hex)"
proof -
  have w: "width (mOutStream net_error_logger_hex) = 0"
    "basefield (mOutStream net_error_logger_hex) = Hex"
    by (simp_all add: net_error_logger_hex_def ostringstream_default_def)
  from operator_lshift_homomorphism [where this = net_error_logger_hex and a = "Num 255"
      and b = "Str ''x''" and h = net_at_warn and ins = stream_insert
      and s = "(net_at_warn, net_error_logger_hex)" and xs = "[]" and ys = "[]"] w
  show ?thesis
    by (simp add: num_text_hex_255)
qed

section \<open>Finalization\<close>

text \<open>
  C1: let the configured minimum level of partition \<open>p\<close> be \<open>S2\<close>. A statement logging
  at a severity \<open>S1\<close> below \<open>S2\<close> leaves the sink as it was; a statement logging at a
  severity \<open>S\<close> of at least \<open>S2\<close> adds exactly one message to the sink, with the
  partition, the severity and the text of the stream, which for value fragments is the
  concatenation of their texts. In both cases exactly one emit decision is taken,
  whatever the number of fragments.
\<close>

theorem level_filter_exactly_once:
  "currentMinimumLevel h p = S2 \<Longrightarrow>
     (S1 < S2 \<longrightarrow> written (log_statement ins S1 p vs h) = written h) \<and>
     (S2 \<le> S \<longrightarrow>
        written (log_statement ins S p vs h) =
          written h @ [(p, S, str (insert_all ins vs ostringstream_default))]) \<and>
     (S2 \<le> S \<and> list_all is_value fs \<longrightarrow>
        written (log_statement stream_insert S p fs h) =
          written h @ [(p, S, concat (map (rendering ostringstream_default) fs))]) \<and>
     decisions (log_statement ins S1 p vs h) = Suc (decisions h) \<and>
     decisions (log_statement ins S p vs h) = Suc (decisions h)"
  by (simp add: written_log_statement decisions_log_statement currentMinimumLevel_def
      default_stream_values)

theorem level_filter_exactly_once_witness:
  "currentMinimumLevel net_at_warn ''net'' = WARN \<and> INFO < WARN \<and> WARN \<le> ERROR \<and>
   list_all is_value [Str ''conn '', Num 42, Str '' failed''] \<and>
   written (log_statement stream_insert INFO ''net''
      [Str ''conn '', Num 42, Str '' closed''] net_at_warn) = [] \<and>
   written (log_statement stream_insert ERROR ''net''
      [Str ''conn '', Num 42, Str '' failed''] net_at_warn) =
     [(''net'', ERROR, ''conn 42 failed'')] \<and>
   decisions (log_statement stream_insert INFO ''net''
      [Str ''conn '', Num 42, Str '' closed''] net_at_warn) = 1 \<and>
   decisions (log_statement stream_insert ERROR ''net''
      [Str ''conn '', Num 42, Str '' failed''] net_at_warn) = 1"
proof -
  have cfg: "currentMinimumLevel net_at_warn ''net'' = WARN"
    by (simp add: currentMinimumLevel_def net_at_warn_def c_str_def)
  have lv: "INFO < WARN" "WARN \<le> ERROR"
    by (simp_all add: INFO_def WARN_def ERROR_def)
  have vals: "list_all is_value [Str ''conn '', Num 42, Str '' failed'']"
    by simp
  have start: "written net_at_warn = []" "decisions net_at_warn = 0"
    by (simp_all add: net_at_warn_def)
  from level_filter_exactly_once [where h = net_at_warn and p = "''net''" and ?S2.0 = WARN
      and ?S1.0 = INFO and S = INFO and ins = stream_insert
      and vs = "[Str ''conn '', Num 42, Str '' closed'']"
      and fs = "[Str ''conn '', Num 42, Str '' closed'']", OF cfg] lv
  have low: "written (log_statement stream_insert INFO ''net''
      [Str ''conn '', Num 42, Str '' closed''] net_at_warn) = []"
    "decisions (log_statement stream_insert INFO ''net''
      [Str ''conn '', Num 42, Str '' closed''] net_at_warn) = 1"
    by (simp_all add: start)
  from level_filter_exactly_once [where h = net_at_warn and p = "''net''" and ?S2.0 = WARN
      and ?S1.0 = INFO and S = ERROR and ins = stream_insert
      and vs = "[Str ''conn '', Num 42, Str '' failed'']"
      and fs = "[Str ''conn '', Num 42, Str '' failed'']", OF cfg] lv vals
  have high: "written (log_statement stream_insert ERROR ''net''
      [Str ''conn '', Num 42, Str '' failed''] net_at_warn) =
      [(''net'', ERROR, ''conn 42 failed'')]"
    "decisions (log_statement stream_insert ERROR ''net''
      [Str ''conn '', Num 42, Str '' failed''] net_at_warn) = 1"
    by (simp_all add: start put_def pad_def ostringstream_default_def num_text_dec_42)
  from cfg lv vals low high show ?thesis
    by simp
qed

text \<open>
  C5: the emit decision is taken at scope exit. When the host replaces its level store
  by \<open>g\<close> after the accumulator was constructed and filled, the message is delivered
  iff its severity is enabled under \<open>g\<close>; the store in force at construction plays no
  part.
\<close>

theorem emit_decision_at_scope_exit:
  "(isEnabled (h\<lparr>getLogLevel := g\<rparr>) p S \<longrightarrow>
      written (log_statement_reconfigured ins S p vs g h) =
        written h @ [(p, S, str (insert_all ins vs ostringstream_default))]) \<and>
   (\<not> isEnabled (h\<lparr>getLogLevel := g\<rparr>) p S \<longrightarrow>
      written (log_statement_reconfigured ins S p vs g h) = written h) \<and>
   decisions (log_statement_reconfigured ins S p vs g h) = Suc (decisions h)"
  by (simp add: log_statement_reconfigured_def append_all_ctor DLogger_dtor_def
      isEnabled_def currentMinimumLevel_def writeDLog_def Let_def)

theorem emit_decision_at_scope_exit_witness:
  "\<not> isEnabled net_at_warn ''net'' INFO \<and>
   isEnabled (net_at_warn\<lparr>getLogLevel := (\<lambda>p. TRACE)\<rparr>) ''net'' INFO \<and>
   written (log_statement_reconfigured stream_insert INFO ''net'' [Str ''up'']
      (\<lambda>p. TRACE) net_at_warn) = [(''net'', INFO, ''up'')] \<and>
   isEnabled net_at_warn ''net'' WARN \<and>
   \<not> isEnabled (net_at_warn\<lparr>getLogLevel := (\<lambda>p. FATAL)\<rparr>) ''net'' WARN \<and>
   written (log_statement_reconfigured stream_insert WARN ''net'' [Str ''up'']
      (\<lambda>p. FATAL) net_at_warn) = []"
proof -
  have old: "\<not> isEnabled net_at_warn ''net'' INFO" "isEnabled net_at_warn ''net'' WARN"
    by (simp_all add: isEnabled_def currentMinimumLevel_def net_at_warn_def c_str_def
        INFO_def WARN_def)
  have new: "isEnabled (net_at_warn\<lparr>getLogLevel := (\<lambda>p. TRACE)\<rparr>) ''net'' INFO"
    "\<not> isEnabled (net_at_warn\<lparr>getLogLevel := (\<lambda>p. FATAL)\<rparr>) ''net'' WARN"
    by (simp_all add: isEnabled_def currentMinimumLevel_def TRACE_def INFO_def WARN_def FATAL_def)
  have start: "written net_at_warn = []"
    by (simp add: net_at_warn_def)
  from emit_decision_at_scope_exit [where h = net_at_warn and g = "\<lambda>p. TRACE" and p = "''net''"
      and S = INFO and ins = stream_insert and vs = "[Str ''up'']"] new
  have raised: "written (log_statement_reconfigured stream_insert INFO ''net'' [Str ''up'']
      (\<lambda>p. TRACE) net_at_warn) = [(''net'', INFO, ''up'')]"
    by (simp add: start put_def pad_def ostringstream_default_def)
  from emit_decision_at_scope_exit [where h = net_at_warn and g = "\<lambda>p. FATAL" and p = "''net''"
      and S = WARN and ins = stream_insert and vs = "[Str ''up'']"] new
  have lowered: "written (log_statement_reconfigured stream_insert WARN ''net'' [Str ''up'']
      (\<lambda>p. FATAL) net_at_warn) = []"
    by (simp add: start)
  from old new raised lowered show ?thesis
    by simp
qed

text \<open>
  C6: a statement at an enabled severity and partition that appends no fragment delivers
  exactly one message to the sink, with an empty body, and takes one emit decision.
\<close>

theorem empty_message_delivered_once:
  "isEnabled h p S \<Longrightarrow>
     written (log_statement ins S p [] h) = written h @ [(p, S, [])] \<and>
     length (written (log_statement ins S p [] h)) = Suc (length (written h)) \<and>
     decisions (log_statement ins S p [] h) = Suc (decisions h)"
  by (simp add: written_log_statement decisions_log_statement isEnabled_def
      currentMinimumLevel_def ostringstream_default_def)

theorem empty_message_delivered_once_witness:
  "isEnabled net_at_warn ''net'' ERROR \<and>
   written (log_statement stream_insert ERROR ''net'' [] net_at_warn) =
     [(''net'', ERROR, [])] \<and>
   length (written (log_statement stream_insert ERROR ''net'' [] net_at_warn)) = 1"
proof -
  have on: "isEnabled net_at_warn ''net'' ERROR"
    by (simp add: isEnabled_def currentMinimumLevel_def net_at_warn_def c_str_def
        WARN_def ERROR_def)
  have start: "written net_at_warn = []"
    by (simp add: net_at_warn_def)
  from empty_message_delivered_once [where ins = stream_insert, OF on] on
  show ?thesis
    by (simp add: start)
qed

end
